theory Spec2Isabelle
  imports Main
begin

section \<open>Python values, errors and warnings\<close>

text \<open>
  The two modules \<^verbatim>\<open>models/flows.py\<close> and \<^verbatim>\<open>models/dense.py\<close> are embedded as HOL
  functions. Every function returns the warnings it issues (in order) next to its result,
  and the result is a sum: \<open>Inl\<close> an exception that leaves the function, \<open>Inr\<close> the value
  returned. Warnings are modelled under Python's default filter, where
  \<^verbatim>\<open>warnings.warn\<close> reports and returns.
\<close>

datatype error =
    SystemExit | TypeError | ValueError | OverflowError | IndexError | AttributeError
  | RuntimeError
  | OtherError string \<comment> \<open>any other exception, by the name of its class\<close>

datatype warning =
    UserWarning string
  | RuntimeWarning string
  | MaskWarning int "int list option"
    \<comment> \<open>the f-string of \<^verbatim>\<open>coupling_spline_transformer\<close>: the input dimension and the
        mask that was entered\<close>

text \<open>Running one fallible step after another: the first exception ends the run.\<close>

definition and_then :: "error + 'a \<Rightarrow> ('a \<Rightarrow> error + 'b) \<Rightarrow> error + 'b" where
  "and_then m f = (case m of Inl e \<Rightarrow> Inl e | Inr x \<Rightarrow> f x)"

text \<open>Values passed as keyword options; \<open>truthy\<close> is Python's truth-value test.\<close>

datatype pyval = PyNone | PyBool bool | PyInt int | PyStr string

fun truthy :: "pyval \<Rightarrow> bool" where
  "truthy PyNone = False"
| "truthy (PyBool b) = b"
| "truthy (PyInt n) = (n \<noteq> 0)"
| "truthy (PyStr s) = (s \<noteq> [])"

section \<open>models/flows.py\<close>

subsection \<open>Objects and constructors of the flow library\<close>

text \<open>
  The classes of the flow library are not code of the repository. An object of the
  library is recorded by the arguments it was built with. The type \<open>'f\<close> is the type of
  the callables passed as \<^verbatim>\<open>net_create_fn\<close>, and \<open>'t\<close> the type of the value passed as
  \<^verbatim>\<open>tail_bounds\<close>.
\<close>

datatype ('f, 't) transform =
    PiecewiseRationalQuadraticCouplingTransform
      (mask: "int list") (transform_net_create_fn: 'f) (tail_bound: 't)
      (num_bins: int) (tails: string) (apply_unconditional_transform: bool)
  | ReversePermutation (features: int)
  | CompositeTransform (transforms: "('f, 't) transform list")

datatype distribution = StandardNormal (shape: "int list")

datatype ('f, 't) flow =
  Flow (flow_transform: "('f, 't) transform") (flow_distribution: distribution)

text \<open>
  A constructor of the library runs inside the function that calls it, and an exception
  it raises leaves that function. What the constructors check is the library's business,
  so it is a parameter of the embedding: for each constructor, the exception it raises
  on given arguments, or \<open>None\<close> when it returns the object. The constructor of a coupling
  transform calls \<^verbatim>\<open>net_create_fn\<close>; an exception of that call is an exception of the
  constructor, and since a callable may answer differently from call to call, the
  constructor is also given the number of the loop iteration that calls it.
\<close>

record ('f, 't) nflows =
  rq_spline_raises ::
    "nat \<Rightarrow> int list \<Rightarrow> 'f \<Rightarrow> 't \<Rightarrow> int \<Rightarrow> string \<Rightarrow> bool \<Rightarrow> error option"
  ReversePermutation_raises :: "int \<Rightarrow> error option"
  CompositeTransform_raises :: "('f, 't) transform list \<Rightarrow> error option"
  StandardNormal_raises :: "int list \<Rightarrow> error option"
  Flow_raises :: "('f, 't) transform \<Rightarrow> distribution \<Rightarrow> error option"

definition construct :: "error option \<Rightarrow> 'o \<Rightarrow> error + 'o" where
  "construct raises obj = (case raises of Some e \<Rightarrow> Inl e | None \<Rightarrow> Inr obj)"

definition rq_spline ::
  "('f, 't) nflows \<Rightarrow> nat \<Rightarrow> int list \<Rightarrow> 'f \<Rightarrow> 't \<Rightarrow> int \<Rightarrow> string \<Rightarrow> bool
    \<Rightarrow> error + ('f, 't) transform" where
  "rq_spline L i msk fn tb nb tls au =
     construct (rq_spline_raises L i msk fn tb nb tls au)
       (PiecewiseRationalQuadraticCouplingTransform msk fn tb nb tls au)"

text \<open>
  The checks of the library's constructors on their arguments, for a \<^verbatim>\<open>net_create_fn\<close>
  that returns: a coupling transform raises \<^verbatim>\<open>ValueError\<close> on an empty mask, and
  \<^verbatim>\<open>ReversePermutation\<close> on a number of features that is not positive. This instance
  serves to run the functions on concrete inputs.
\<close>

definition nflows_checks :: "('f, 't) nflows" where
  "nflows_checks =
     \<lparr>rq_spline_raises = (\<lambda>i msk fn tb nb tls au. if msk = [] then Some ValueError else None),
      ReversePermutation_raises = (\<lambda>n. if n \<le> 0 then Some ValueError else None),
      CompositeTransform_raises = (\<lambda>ts. None),
      StandardNormal_raises = (\<lambda>sh. None),
      Flow_raises = (\<lambda>t d. None)\<rparr>"

subsection \<open>make_mask\<close>

text \<open>
  \<^verbatim>\<open>n_mask = int(np.ceil(input_dim / 2))\<close>,
  \<^verbatim>\<open>mask = [1] * n_mask + [0] * (input_dim - n_mask)\<close>. The ceiling of half an integer
  is written with the floor division of the integers, \<open>\<lceil>d / 2\<rceil> = - (- d div 2)\<close>;
  Python divides as a double, which is exact for every dimension below \<open>2 ^ 53\<close>.
  A list times a negative number is the empty list, which \<open>nat\<close> gives.
\<close>

definition make_mask :: "int \<Rightarrow> int list" where
  "make_mask input_dim =
     (let n_mask = - ((- input_dim) div 2)
      in replicate (nat n_mask) 1 @ replicate (nat (input_dim - n_mask)) 0)"

subsection \<open>coupling_spline_transformer\<close>

text \<open>
  The argument \<^verbatim>\<open>num_stacks\<close> is an int, or a value that is not an instance of int, given
  by what \<^verbatim>\<open>int()\<close> does on it: return an int (a float, a numeric string) or raise
  (\<^verbatim>\<open>TypeError\<close> on \<^verbatim>\<open>None\<close>, \<^verbatim>\<open>ValueError\<close> on a string that is no numeral,
  \<^verbatim>\<open>OverflowError\<close> on an infinite float, whatever a method \<^verbatim>\<open>__int__\<close> raises).
  \<open>int_of_num_stacks\<close> is \<^verbatim>\<open>num_stacks\<close> after the lines
  \<^verbatim>\<open>if not isinstance(num_stacks, int): ... num_stacks = int(num_stacks)\<close>.
\<close>

datatype num_stacks_arg = IntArg int | NonIntArg "error + int"

fun int_of_num_stacks :: "num_stacks_arg \<Rightarrow> error + int" where
  "int_of_num_stacks (IntArg n) = Inr n"
| "int_of_num_stacks (NonIntArg conv) = conv"

text \<open>
  The loop \<^verbatim>\<open>for _ in range(num_stacks): transform_list += [rq_spline(...)]\<close>, as a
  recursion on the iterations left, with the number \<open>i\<close> of the iteration;
  \<^verbatim>\<open>range\<close> of a negative number is empty. An exception of a constructor ends the loop.
\<close>

fun stack_loop ::
  "('f, 't) nflows \<Rightarrow> nat \<Rightarrow> nat \<Rightarrow> int list \<Rightarrow> 'f \<Rightarrow> 't \<Rightarrow> int \<Rightarrow> string
    \<Rightarrow> ('f, 't) transform list \<Rightarrow> error + ('f, 't) transform list" where
  "stack_loop L 0 i msk fn tb nb tls transform_list = Inr transform_list"
| "stack_loop L (Suc k) i msk fn tb nb tls transform_list =
     (case rq_spline L i msk fn tb nb tls False of
        Inl e \<Rightarrow> Inl e
      | Inr t \<Rightarrow> stack_loop L k (Suc i) msk fn tb nb tls (transform_list @ [t]))"

definition coupling_spline_transformer ::
  "('f, 't) nflows \<Rightarrow> int \<Rightarrow> 'f option \<Rightarrow> num_stacks_arg \<Rightarrow> string option \<Rightarrow> 't \<Rightarrow> int
    \<Rightarrow> int list option \<Rightarrow> warning list \<times> (error + ('f, 't) transform)" where
  "coupling_spline_transformer L input_dim net_create_fn num_stacks tls tail_bounds nbins msk =
     (case net_create_fn of
        None \<Rightarrow> ([UserWarning ''No net create function was passed.''], Inl SystemExit)
      | Some fn \<Rightarrow>
          let tls1 = (case tls of None \<Rightarrow> ''linear'' | Some s \<Rightarrow> s);
              (w1, msk1) =
                (case msk of
                   None \<Rightarrow> ([MaskWarning input_dim msk], make_mask input_dim)
                 | Some m \<Rightarrow>
                     if int (length m) \<noteq> input_dim
                     then ([MaskWarning input_dim msk], make_mask input_dim)
                     else ([], m));
              w2 = (case num_stacks of
                      IntArg n \<Rightarrow> []
                    | NonIntArg conv \<Rightarrow> [UserWarning ''num_stacks must be an integer.''])
          in (w1 @ w2,
              and_then (int_of_num_stacks num_stacks) (\<lambda>n.
              and_then (stack_loop L (nat n) 0 msk1 fn tail_bounds nbins tls1 []) (\<lambda>transform_list.
              and_then (construct (ReversePermutation_raises L input_dim)
                          (ReversePermutation input_dim)) (\<lambda>rp.
              let transform_list = transform_list @ [rp]
              in construct (CompositeTransform_raises L transform_list)
                   (CompositeTransform transform_list))))))"

subsection \<open>coupling_flow\<close>

text \<open>
  The call passes six positional arguments, so \<^verbatim>\<open>mask\<close> takes its default \<^verbatim>\<open>None\<close>. The
  parameter \<^verbatim>\<open>base_density\<close> (of any type \<open>'d\<close>) is overwritten before it is read.
\<close>

definition coupling_flow ::
  "('f, 't) nflows \<Rightarrow> int \<Rightarrow> 'f option \<Rightarrow> num_stacks_arg \<Rightarrow> string option \<Rightarrow> 't \<Rightarrow> int \<Rightarrow> 'd
    \<Rightarrow> warning list \<times> (error + ('f, 't) flow)" where
  "coupling_flow L input_dim net_create_fn num_stacks tls tail_bounds nbins base_density =
     (case coupling_spline_transformer L input_dim net_create_fn num_stacks tls tail_bounds
             nbins None of
        (w, r) \<Rightarrow>
          (w,
           and_then r (\<lambda>transformer.
           and_then (construct (StandardNormal_raises L [input_dim])
                       (StandardNormal [input_dim])) (\<lambda>base_density1.
           construct (Flow_raises L transformer base_density1)
             (Flow transformer base_density1)))))"

section \<open>models/dense.py\<close>

subsection \<open>Lists on the heap\<close>

text \<open>
  A Python list is an object: the constructor of \<^verbatim>\<open>DenseNet\<close> keeps the list it is given
  (\<^verbatim>\<open>self.layers = node_list\<close>) and extends it in place. Lists therefore live in a heap,
  and \<^verbatim>\<open>node_list\<close> is a reference. \<open>next_ref\<close> is the reference the next new list gets.
\<close>

type_synonym ref = nat

record heap =
  cells :: "ref \<Rightarrow> int list"
  next_ref :: ref

definition alloc :: "heap \<Rightarrow> int list \<Rightarrow> heap \<times> ref" where
  "alloc h xs = (h\<lparr>cells := (cells h)(next_ref h := xs), next_ref := Suc (next_ref h)\<rparr>, next_ref h)"

definition extend_list :: "heap \<Rightarrow> ref \<Rightarrow> int list \<Rightarrow> heap" where
  \<comment> \<open>\<^verbatim>\<open>lst += ys\<close> on a list object\<close>
  "extend_list h r ys = h\<lparr>cells := (cells h)(r := cells h r @ ys)\<rparr>"

subsection \<open>Objects and operations of the tensor library\<close>

text \<open>
  \<^verbatim>\<open>Linear(a, b)\<close> is recorded by the two sizes it is built with. An activation is
  one of the two defaults of the constructor, \<^verbatim>\<open>Identity()\<close> and \<^verbatim>\<open>relu\<close>, or a callable
  of the caller's, of type \<open>'a\<close>.
\<close>

datatype linear = Linear (in_features: int) (out_features: int)

datatype 'a activation = Identity | relu | Callable 'a

text \<open>
  The tensor library is a parameter of the embedding, on tensors of type \<open>'v\<close>: whether
  the constructor \<^verbatim>\<open>Linear(a, b)\<close> raises, and the operations that \<^verbatim>\<open>forward\<close> calls, each
  of which returns a tensor or raises: applying a \<^verbatim>\<open>Linear\<close> module, \<^verbatim>\<open>relu\<close>, a callable
  of the caller's, and the in-place addition \<^verbatim>\<open>x += y\<close> (on the tensor the layer has just
  returned). \<^verbatim>\<open>Identity()\<close> returns its argument.
\<close>

record ('a, 'v) torch =
  Linear_raises :: "int \<Rightarrow> int \<Rightarrow> error option"
  linear_call :: "linear \<Rightarrow> 'v \<Rightarrow> error + 'v"
  relu_call :: "'v \<Rightarrow> error + 'v"
  callable_call :: "'a \<Rightarrow> 'v \<Rightarrow> error + 'v"
  iadd :: "'v \<Rightarrow> 'v \<Rightarrow> error + 'v"

definition Linear_new :: "('a, 'v) torch \<Rightarrow> int \<Rightarrow> int \<Rightarrow> error + linear" where
  "Linear_new T a b = construct (Linear_raises T a b) (Linear a b)"

fun activ_call :: "('a, 'v) torch \<Rightarrow> 'a activation \<Rightarrow> 'v \<Rightarrow> error + 'v" where
  "activ_call T Identity x = Inr x"
| "activ_call T relu x = relu_call T x"
| "activ_call T (Callable f) x = callable_call T f x"

subsection \<open>DenseNet.__init__\<close>

record 'a DenseNet =
  ipdim :: int
  opdim :: int
  op_activ :: "'a activation"
  int_activ :: "'a activation"
  context' :: "int option"
  layernorm :: pyval
  batchnorm :: pyval
  islast :: pyval
  layers :: ref
  contextual :: "linear option"
  hidden :: "linear list"

text \<open>
  \<^verbatim>\<open>[Linear(self.layers[i], self.layers[i + 1]) for i in range(len(self.layers) - 1)]\<close>:
  the modules are built in the order of \<open>i\<close>, and the first exception ends the
  comprehension.
\<close>

fun new_layers :: "('a, 'v) torch \<Rightarrow> int list \<Rightarrow> nat list \<Rightarrow> error + linear list" where
  "new_layers T ls [] = Inr []"
| "new_layers T ls (i # js) =
     and_then (Linear_new T (ls ! i) (ls ! (i + 1))) (\<lambda>l.
     and_then (new_layers T ls js) (\<lambda>rest. Inr (l # rest)))"

definition hidden_tail :: "('a, 'v) torch \<Rightarrow> int list \<Rightarrow> error + linear list" where
  "hidden_tail T ls = new_layers T ls [0 ..< length ls - 1]"

text \<open>
  The constructor, in the order of the source. An optional argument is an \<open>option\<close>, with
  \<open>None\<close> for an argument left out (for \<^verbatim>\<open>context\<close> and \<^verbatim>\<open>node_list\<close> also for \<^verbatim>\<open>None\<close>
  passed); \<open>kwargs\<close> is the dictionary of the keyword options. \<^verbatim>\<open>self.layers[0]\<close> raises
  \<^verbatim>\<open>IndexError\<close> on an empty list. Every exception comes after the list was extended,
  and the heap is returned as the constructor leaves it.
\<close>

definition DenseNet_init ::
  "('a, 'v) torch \<Rightarrow> heap \<Rightarrow> int \<Rightarrow> int \<Rightarrow> int option \<Rightarrow> ref option \<Rightarrow> 'a activation option
    \<Rightarrow> 'a activation option \<Rightarrow> (string \<rightharpoonup> pyval)
    \<Rightarrow> heap \<times> warning list \<times> (error + 'a DenseNet)" where
  "DenseNet_init T h input_dim output_dim ctx node_list op_act int_act kwargs =
     (let (h1, node_list1) =
            (case node_list of None \<Rightarrow> alloc h [10, 10] | Some r \<Rightarrow> (h, r));
          op_activ0 = (case op_act of None \<Rightarrow> Identity | Some f \<Rightarrow> f);
          int_activ0 = (case int_act of None \<Rightarrow> relu | Some f \<Rightarrow> f);
          layernorm0 = (case kwargs ''layernorm'' of Some v \<Rightarrow> v | None \<Rightarrow> PyBool False);
          batchnorm0 = (case kwargs ''batchnorm'' of Some v \<Rightarrow> v | None \<Rightarrow> PyBool False);
          islast0 = (case kwargs ''islast'' of Some v \<Rightarrow> v | None \<Rightarrow> PyBool True);
          h2 = (if truthy islast0 then extend_list h1 node_list1 [output_dim] else h1);
          (w, layernorm1, batchnorm1) =
            (if truthy layernorm0 \<and> truthy batchnorm0
             then ([RuntimeWarning
                      ''Both layernorm and batchnorm were set to True. Turning off layernorm.''],
                   PyInt 0, PyInt 1)
             else ([], layernorm0, batchnorm0));
          ls = cells h2 node_list1;
          layers0 = (if ls = [] then Inl IndexError else Inr (ls ! 0))
      in (h2, w,
          and_then
            (case ctx of
               None \<Rightarrow> Inr None
             | Some c \<Rightarrow>
                 and_then layers0 (\<lambda>n0. and_then (Linear_new T c n0) (\<lambda>l. Inr (Some l))))
            (\<lambda>contextual1.
          and_then layers0 (\<lambda>n0.
          and_then (Linear_new T input_dim n0) (\<lambda>first.
          and_then (hidden_tail T ls) (\<lambda>rest.
          Inr \<lparr>ipdim = input_dim, opdim = output_dim, op_activ = op_activ0,
               int_activ = int_activ0, context' = ctx, layernorm = layernorm1,
               batchnorm = batchnorm1, islast = islast0, layers = node_list1,
               contextual = contextual1, hidden = [first] @ rest\<rparr>))))))"

subsection \<open>DenseNet.forward\<close>

text \<open>
  The loop \<^verbatim>\<open>for i, layer in enumerate(self.hidden[:-1])\<close>: \<open>i\<close> is the index, the list
  the layers left. \<^verbatim>\<open>self.contextual\<close> exists only when the net was built with a context
  size; reading it otherwise raises \<^verbatim>\<open>AttributeError\<close>.
\<close>

fun forward_loop ::
  "('a, 'v) torch \<Rightarrow> 'a DenseNet \<Rightarrow> 'v option \<Rightarrow> nat \<Rightarrow> linear list \<Rightarrow> 'v \<Rightarrow> error + 'v" where
  "forward_loop T net ctx i [] x = Inr x"
| "forward_loop T net ctx i (layer # rest) x =
     and_then (linear_call T layer x) (\<lambda>x1.
     and_then
       (case ctx of
          None \<Rightarrow> Inr x1
        | Some c \<Rightarrow>
            if i = 0
            then (case contextual net of
                    None \<Rightarrow> Inl AttributeError
                  | Some cl \<Rightarrow> and_then (linear_call T cl c) (\<lambda>y. iadd T x1 y))
            else Inr x1)
       (\<lambda>x2.
     and_then (activ_call T (int_activ net) x2) (\<lambda>x3.
     forward_loop T net ctx (Suc i) rest x3)))"

definition forward :: "('a, 'v) torch \<Rightarrow> 'a DenseNet \<Rightarrow> 'v \<Rightarrow> 'v option \<Rightarrow> error + 'v" where
  "forward T net x ctx =
     and_then (forward_loop T net ctx 0 (butlast (hidden net)) x) (\<lambda>x1.
     if hidden net = [] then Inl IndexError
     else and_then (linear_call T (last (hidden net)) x1) (\<lambda>x2.
          activ_call T (op_activ net) x2))"

text \<open>
  \<^verbatim>\<open>DenseNet(...).forward(x, context)\<close>: the constructor, then \<^verbatim>\<open>forward\<close> on the net it
  returns; an exception of the constructor is the result.
\<close>

definition DenseNet_run ::
  "('a, 'v) torch \<Rightarrow> heap \<Rightarrow> int \<Rightarrow> int \<Rightarrow> int option \<Rightarrow> ref option \<Rightarrow> 'a activation option
    \<Rightarrow> 'a activation option \<Rightarrow> (string \<rightharpoonup> pyval) \<Rightarrow> 'v \<Rightarrow> 'v option \<Rightarrow> error + 'v" where
  "DenseNet_run T h input_dim output_dim ctx_dim node_list op_act int_act kwargs x ctx =
     and_then
       (snd (snd (DenseNet_init T h input_dim output_dim ctx_dim node_list op_act int_act kwargs)))
       (\<lambda>net. forward T net x ctx)"

subsection \<open>Two interpretations of the tensor library\<close>

text \<open>
  In both, \<^verbatim>\<open>Linear(a, b)\<close> raises \<^verbatim>\<open>RuntimeError\<close> on a negative size. In the first, a
  tensor is the expression that computes it from the input \<open>Input\<close> and the context
  \<open>Ctx\<close>, and no operation raises: it shows which operations \<^verbatim>\<open>forward\<close> applies, and in
  which order.
\<close>

datatype 'a tensor_expr =
    Input
  | Ctx
  | LinearOp linear "'a tensor_expr"
  | ReluOp "'a tensor_expr"
  | CallOp 'a "'a tensor_expr"
  | AddOp "'a tensor_expr" "'a tensor_expr"

definition symbolic :: "('a, 'a tensor_expr) torch" where
  "symbolic =
     \<lparr>Linear_raises = (\<lambda>a b. if a < 0 \<or> b < 0 then Some RuntimeError else None),
      linear_call = (\<lambda>l e. Inr (LinearOp l e)),
      relu_call = (\<lambda>e. Inr (ReluOp e)),
      callable_call = (\<lambda>f e. Inr (CallOp f e)),
      iadd = (\<lambda>d e. Inr (AddOp d e))\<rparr>"

text \<open>
  In the second, a tensor is the size of its last dimension: a \<^verbatim>\<open>Linear\<close> module raises
  \<^verbatim>\<open>RuntimeError\<close> on a tensor that has not its \<^verbatim>\<open>in_features\<close> and returns one of its
  \<^verbatim>\<open>out_features\<close>, an activation keeps the size, and the addition raises on two
  different sizes.
\<close>

definition shapes :: "('a, int) torch" where
  "shapes =
     \<lparr>Linear_raises = (\<lambda>a b. if a < 0 \<or> b < 0 then Some RuntimeError else None),
      linear_call = (\<lambda>l d. if d = in_features l then Inr (out_features l) else Inl RuntimeError),
      relu_call = (\<lambda>d. Inr d),
      callable_call = (\<lambda>f d. Inr d),
      iadd = (\<lambda>d e. if d = e then Inr d else Inl RuntimeError)\<rparr>"

text \<open>
  Whether the constructor takes the branch \<^verbatim>\<open>if self.islast\<close>: the option is left out
  (the default \<^verbatim>\<open>True\<close>) or given a value that counts as true.
\<close>

definition islast_set :: "(string \<rightharpoonup> pyval) \<Rightarrow> bool" where
  "islast_set kwargs = (case kwargs ''islast'' of None \<Rightarrow> True | Some v \<Rightarrow> truthy v)"

text \<open>
  The sizes of the \<^verbatim>\<open>Linear\<close> modules that the constructor builds, in the order in which it
  builds them, for a context size \<open>ctx\<close> and the list \<open>ls\<close> that \<^verbatim>\<open>self.layers\<close> holds
  when they are built (not empty): the context map, the first layer, the other layers.
\<close>

definition linear_sizes :: "int option \<Rightarrow> int \<Rightarrow> int list \<Rightarrow> (int \<times> int) list" where
  "linear_sizes ctx input_dim ls =
     (case ctx of None \<Rightarrow> [] | Some c \<Rightarrow> [(c, hd ls)]) @ zip (input_dim # butlast ls) ls"

text \<open>
  The constructors that \<^verbatim>\<open>coupling_spline_transformer\<close> calls for \<open>n\<close> stacks accept
  their arguments: each of the coupling transforms of the loop, \<^verbatim>\<open>ReversePermutation\<close>, and
  \<^verbatim>\<open>CompositeTransform\<close> on the list of them.
\<close>

definition constructors_accept ::
  "('f, 't) nflows \<Rightarrow> int \<Rightarrow> 'f \<Rightarrow> int \<Rightarrow> 't \<Rightarrow> int \<Rightarrow> int list \<Rightarrow> string \<Rightarrow> bool" where
  "constructors_accept L input_dim fn n tb nb msk tls =
     ((\<forall>i < nat n. rq_spline_raises L i msk fn tb nb tls False = None)
      \<and> ReversePermutation_raises L input_dim = None
      \<and> CompositeTransform_raises L
            (replicate (nat n) (PiecewiseRationalQuadraticCouplingTransform msk fn tb nb tls False)
             @ [ReversePermutation input_dim]) = None)"

section \<open>Properties of models/flows.py\<close>

subsection \<open>Auxiliary facts\<close>

lemma and_then_Inl [simp]: "and_then (Inl e) f = Inl e"
  by (simp add: and_then_def)

lemma and_then_Inr [simp]: "and_then (Inr x) f = f x"
  by (simp add: and_then_def)

lemma and_then_eq_Inr: "(and_then m f = Inr y) = (\<exists>x. m = Inr x \<and> f x = Inr y)"
  by (cases m) simp_all

lemma and_then_eq_Inl: "(and_then m f = Inl e) = (m = Inl e \<or> (\<exists>x. m = Inr x \<and> f x = Inl e))"
  by (cases m) simp_all

lemma construct_None [simp]: "construct None x = Inr x"
  by (simp add: construct_def)

lemma construct_Some [simp]: "construct (Some e) x = Inl e"
  by (simp add: construct_def)

lemma construct_eq_Inr: "(construct r x = Inr y) = (r = None \<and> y = x)"
  by (cases r) auto

lemma construct_eq_Inl: "(construct r x = Inl e) = (r = Some e)"
  by (cases r) auto

lemma ceiling_half: "- ((- d) div 2) = (d + 1) div (2::int)"
  by linarith

lemma make_mask_div:
  "make_mask d = replicate (nat ((d + 1) div 2)) 1 @ replicate (nat (d - (d + 1) div 2)) 0"
  by (simp add: make_mask_def ceiling_half Let_def)

lemma stack_loop_accepts:
  "(\<forall>j < k. rq_spline_raises L (i + j) msk fn tb nb tls False = None) \<Longrightarrow>
   stack_loop L k i msk fn tb nb tls acc
     = Inr (acc @ replicate k (PiecewiseRationalQuadraticCouplingTransform msk fn tb nb tls False))"
proof (induction k arbitrary: i acc)
  case 0
  then show ?case by simp
next
  case (Suc k)
  from Suc.prems have 0: "rq_spline_raises L i msk fn tb nb tls False = None"
    by (metis add.right_neutral zero_less_Suc)
  from Suc.prems have "\<forall>j < k. rq_spline_raises L (Suc i + j) msk fn tb nb tls False = None"
    by (metis Suc_less_eq add_Suc_shift)
  from Suc.IH [OF this] 0 show ?case
    by (simp add: rq_spline_def replicate_append_same)
qed

lemma stack_loop_Inr:
  "stack_loop L k i msk fn tb nb tls acc = Inr ts \<Longrightarrow>
   (\<forall>j < k. rq_spline_raises L (i + j) msk fn tb nb tls False = None)"
proof (induction k arbitrary: i acc)
  case 0
  then show ?case by simp
next
  case (Suc k)
  from Suc.prems have 0: "rq_spline_raises L i msk fn tb nb tls False = None"
    by (auto simp: rq_spline_def construct_def split: option.splits)
  with Suc.prems have
    "stack_loop L k (Suc i) msk fn tb nb tls
       (acc @ [PiecewiseRationalQuadraticCouplingTransform msk fn tb nb tls False]) = Inr ts"
    by (simp add: rq_spline_def)
  from Suc.IH [OF this] have r: "\<forall>j < k. rq_spline_raises L (Suc i + j) msk fn tb nb tls False = None" .
  show ?case
  proof (intro allI impI)
    fix j assume "j < Suc k"
    then show "rq_spline_raises L (i + j) msk fn tb nb tls False = None"
      using 0 r by (cases j) auto
  qed
qed

lemma stack_loop_Inl:
  "stack_loop L k i msk fn tb nb tls acc = Inl e \<Longrightarrow>
   (\<exists>j < k. rq_spline_raises L (i + j) msk fn tb nb tls False = Some e)"
proof (induction k arbitrary: i acc)
  case 0
  then show ?case by simp
next
  case (Suc k)
  show ?case
  proof (cases "rq_spline_raises L i msk fn tb nb tls False")
    case None
    with Suc.prems have
      "stack_loop L k (Suc i) msk fn tb nb tls
         (acc @ [PiecewiseRationalQuadraticCouplingTransform msk fn tb nb tls False]) = Inl e"
      by (simp add: rq_spline_def)
    from Suc.IH [OF this] obtain j where "j < k"
      and "rq_spline_raises L (Suc i + j) msk fn tb nb tls False = Some e" by blast
    then have "Suc j < Suc k" and "rq_spline_raises L (i + Suc j) msk fn tb nb tls False = Some e"
      by simp_all
    then show ?thesis by blast
  next
    case (Some e')
    with Suc.prems have "e' = e" by (simp add: rq_spline_def)
    with Some have "rq_spline_raises L (i + 0) msk fn tb nb tls False = Some e" by simp
    then show ?thesis by blast
  qed
qed

lemma cst_None:
  "coupling_spline_transformer L d None ns tls tb nb msk =
     ([UserWarning ''No net create function was passed.''], Inl SystemExit)"
  by (simp add: coupling_spline_transformer_def)

lemma cst_snd:
  "snd (coupling_spline_transformer L d (Some fn) ns tls tb nb msk) =
     and_then (int_of_num_stacks ns) (\<lambda>n.
     and_then (stack_loop L (nat n) 0
                 (case msk of None \<Rightarrow> make_mask d
                  | Some m \<Rightarrow> if int (length m) = d then m else make_mask d)
                 fn tb nb (case tls of None \<Rightarrow> ''linear'' | Some s \<Rightarrow> s) []) (\<lambda>ts.
     and_then (construct (ReversePermutation_raises L d) (ReversePermutation d)) (\<lambda>rp.
     construct (CompositeTransform_raises L (ts @ [rp])) (CompositeTransform (ts @ [rp])))))"
  by (cases msk) (simp_all add: coupling_spline_transformer_def Let_def)

lemma cst_accepts:
  assumes "int_of_num_stacks ns = Inr n"
    and "constructors_accept L d fn n tb nb
           (case msk of None \<Rightarrow> make_mask d
            | Some m \<Rightarrow> if int (length m) = d then m else make_mask d)
           (case tls of None \<Rightarrow> ''linear'' | Some s \<Rightarrow> s)"
  shows "snd (coupling_spline_transformer L d (Some fn) ns tls tb nb msk) =
     Inr (CompositeTransform (replicate (nat n)
       (PiecewiseRationalQuadraticCouplingTransform
          (case msk of None \<Rightarrow> make_mask d
           | Some m \<Rightarrow> if int (length m) = d then m else make_mask d)
          fn tb nb (case tls of None \<Rightarrow> ''linear'' | Some s \<Rightarrow> s) False)
       @ [ReversePermutation d]))"
  using assms
  by (simp add: cst_snd constructors_accept_def stack_loop_accepts)

lemma cst_Inr:
  assumes "snd (coupling_spline_transformer L d (Some fn) ns tls tb nb msk) = Inr c"
  shows "\<exists>n. int_of_num_stacks ns = Inr n
     \<and> constructors_accept L d fn n tb nb
           (case msk of None \<Rightarrow> make_mask d
            | Some m \<Rightarrow> if int (length m) = d then m else make_mask d)
           (case tls of None \<Rightarrow> ''linear'' | Some s \<Rightarrow> s)
     \<and> c = CompositeTransform (replicate (nat n)
       (PiecewiseRationalQuadraticCouplingTransform
          (case msk of None \<Rightarrow> make_mask d
           | Some m \<Rightarrow> if int (length m) = d then m else make_mask d)
          fn tb nb (case tls of None \<Rightarrow> ''linear'' | Some s \<Rightarrow> s) False)
       @ [ReversePermutation d])"
proof -
  let ?M = "case msk of None \<Rightarrow> make_mask d
            | Some m \<Rightarrow> if int (length m) = d then m else make_mask d"
  let ?S = "case tls of None \<Rightarrow> ''linear'' | Some s \<Rightarrow> s"
  from assms obtain n ts where n: "int_of_num_stacks ns = Inr n"
    and l: "stack_loop L (nat n) 0 ?M fn tb nb ?S [] = Inr ts"
    and rp: "ReversePermutation_raises L d = None"
    and ct: "CompositeTransform_raises L (ts @ [ReversePermutation d]) = None"
    and c: "c = CompositeTransform (ts @ [ReversePermutation d])"
    by (auto simp: cst_snd and_then_eq_Inr construct_eq_Inr)
  from stack_loop_Inr [OF l]
  have a: "\<forall>j < nat n. rq_spline_raises L j ?M fn tb nb ?S False = None" by simp
  then have "\<forall>j < nat n. rq_spline_raises L (0 + j) ?M fn tb nb ?S False = None" by simp
  from stack_loop_accepts [OF this, of "[]"] l
  have ts: "ts = replicate (nat n) (PiecewiseRationalQuadraticCouplingTransform ?M fn tb nb ?S False)"
    by simp
  from n a rp ct c ts show ?thesis by (simp add: constructors_accept_def)
qed

lemma cst_Inl:
  assumes "snd (coupling_spline_transformer L d (Some fn) ns tls tb nb msk) = Inl e"
  shows "int_of_num_stacks ns = Inl e
     \<or> (\<exists>i m s. rq_spline_raises L i m fn tb nb s False = Some e)
     \<or> ReversePermutation_raises L d = Some e
     \<or> (\<exists>ts. CompositeTransform_raises L ts = Some e)"
  using assms
  by (auto simp: cst_snd and_then_eq_Inl construct_eq_Inl dest!: stack_loop_Inl)

lemma nflows_checks_accept:
  "constructors_accept nflows_checks d fn n tb nb msk tls = (0 < d \<and> (msk \<noteq> [] \<or> nat n = 0))"
proof (cases "nat n")
  case 0
  then show ?thesis by (auto simp: constructors_accept_def nflows_checks_def)
next
  case (Suc k)
  then have "0 < nat n" by simp
  then show ?thesis using Suc by (auto simp: constructors_accept_def nflows_checks_def)
qed

subsection \<open>The stack of coupling transforms\<close>

text \<open>
  Claim C1, as the code has it. Let \<open>num_stacks\<close> be an int \<open>n \<ge> 0\<close> and \<open>fn\<close> a
  net-creating function; let \<open>M\<close> be the mask given when its length is \<open>input_dim\<close>, else
  \<open>make_mask input_dim\<close>, and \<open>S\<close> the tails given, else \<open>linear\<close>. Whenever
  \<^verbatim>\<open>coupling_spline_transformer\<close> returns, it returns the \<^verbatim>\<open>CompositeTransform\<close> of
  exactly \<open>n\<close> rational-quadratic coupling transforms, each built with \<open>M\<close> and \<open>fn\<close>,
  followed by one \<^verbatim>\<open>ReversePermutation\<close> over \<open>input_dim\<close> features. It returns exactly
  when the constructors of the library accept their arguments: the \<open>n\<close> coupling
  transforms (whose constructor calls \<open>fn\<close>), the permutation, and the composite.
\<close>

theorem coupling_spline_transformer_stack:
  fixes L :: "('f, 't) nflows" and n input_dim nbins :: int
  defines "M \<equiv> \<lambda>input_dim msk. (case msk of None \<Rightarrow> make_mask input_dim
                     | Some m \<Rightarrow> if int (length m) = input_dim then m else make_mask input_dim)"
    and "S \<equiv> \<lambda>tls. (case tls of None \<Rightarrow> ''linear'' | Some s \<Rightarrow> s)"
  assumes "0 \<le> n"
  shows
    "int (length (replicate (nat n)
        (PiecewiseRationalQuadraticCouplingTransform (M input_dim msk) fn tail_bounds nbins (S tls)
           False))) = n
     \<and> (\<forall>c. snd (coupling_spline_transformer L input_dim (Some fn) (IntArg n) tls
                   tail_bounds nbins msk) = Inr c
            \<longrightarrow> c = CompositeTransform
                      (replicate (nat n)
                         (PiecewiseRationalQuadraticCouplingTransform (M input_dim msk) fn
                            tail_bounds nbins (S tls) False)
                       @ [ReversePermutation input_dim]))
     \<and> ((snd (coupling_spline_transformer L input_dim (Some fn) (IntArg n) tls
                 tail_bounds nbins msk)
           = Inr (CompositeTransform
                    (replicate (nat n)
                       (PiecewiseRationalQuadraticCouplingTransform (M input_dim msk) fn
                          tail_bounds nbins (S tls) False)
                     @ [ReversePermutation input_dim])))
         = constructors_accept L input_dim fn n tail_bounds nbins (M input_dim msk) (S tls))"
proof -
  let ?ts = "replicate (nat n)
               (PiecewiseRationalQuadraticCouplingTransform (M input_dim msk) fn tail_bounds nbins
                  (S tls) False)"
  let ?r = "snd (coupling_spline_transformer L input_dim (Some fn) (IntArg n) tls
                   tail_bounds nbins msk)"
  have len: "int (length ?ts) = n" using assms by simp
  have only: "\<forall>c. ?r = Inr c \<longrightarrow> c = CompositeTransform (?ts @ [ReversePermutation input_dim])"
  proof (intro allI impI)
    fix c assume "?r = Inr c"
    from cst_Inr [OF this] show "c = CompositeTransform (?ts @ [ReversePermutation input_dim])"
      by (auto simp: M_def S_def)
  qed
  have iff: "(?r = Inr (CompositeTransform (?ts @ [ReversePermutation input_dim])))
             = constructors_accept L input_dim fn n tail_bounds nbins (M input_dim msk) (S tls)"
  proof
    assume "?r = Inr (CompositeTransform (?ts @ [ReversePermutation input_dim]))"
    from cst_Inr [OF this]
    show "constructors_accept L input_dim fn n tail_bounds nbins (M input_dim msk) (S tls)"
      by (auto simp: M_def S_def)
  next
    assume "constructors_accept L input_dim fn n tail_bounds nbins (M input_dim msk) (S tls)"
    with cst_accepts [of "IntArg n" n L input_dim fn tail_bounds nbins msk tls]
    show "?r = Inr (CompositeTransform (?ts @ [ReversePermutation input_dim]))"
      by (simp add: M_def S_def)
  qed
  from len only iff show ?thesis by (intro conjI)
qed

theorem coupling_spline_transformer_stack_witness:
  "snd (coupling_spline_transformer nflows_checks 5 (Some ''net'') (IntArg 2) None (1::nat) 8 None)
     = Inr (CompositeTransform
         [PiecewiseRationalQuadraticCouplingTransform [1, 1, 1, 0, 0] ''net'' 1 8 ''linear'' False,
          PiecewiseRationalQuadraticCouplingTransform [1, 1, 1, 0, 0] ''net'' 1 8 ''linear'' False,
          ReversePermutation 5])"
proof -
  have n: "(0::int) \<le> 2" by simp
  have m: "make_mask 5 = [1, 1, 1, 0, 0]" by (simp add: make_mask_div eval_nat_numeral)
  have a: "constructors_accept (nflows_checks :: (string, nat) nflows) 5 ''net'' 2 1 8
             [1, 1, 1, 0, 0] ''linear''"
    by (simp add: nflows_checks_accept)
  note t = coupling_spline_transformer_stack
         [OF n, where msk = None and input_dim = 5 and fn = "''net''" and tail_bounds = "1::nat"
            and nbins = 8 and tls = None and L = nflows_checks]
  from t have
    "(snd (coupling_spline_transformer nflows_checks 5 (Some ''net'') (IntArg 2) None
             (1::nat) 8 None)
       = Inr (CompositeTransform
                (replicate (nat 2)
                   (PiecewiseRationalQuadraticCouplingTransform (make_mask 5) ''net'' (1::nat) 8
                      ''linear'' False)
                 @ [ReversePermutation 5])))
     = constructors_accept nflows_checks 5 ''net'' 2 (1::nat) 8 (make_mask 5) ''linear''"
    by simp
  with a m show ?thesis by (simp add: eval_nat_numeral)
qed

text \<open>
  Claim C1, as stated, fails: it is not for every input that a transform is returned.
  With \<open>input_dim = 0\<close> the mask is replaced by \<open>make_mask 0 = []\<close>, and the constructor
  of the first coupling transform raises \<^verbatim>\<open>ValueError\<close> on the empty mask.
\<close>

theorem coupling_spline_transformer_empty_mask:
  "snd (coupling_spline_transformer nflows_checks 0 (Some ''net'') (IntArg 2) None (1::nat) 8 None)
     = Inl ValueError"
  by (simp add: cst_snd make_mask_div nflows_checks_def rq_spline_def eval_nat_numeral)

subsection \<open>Leaving the program, and the mask\<close>

lemma cst_fst_mask:
  "msk = None \<or> (\<exists>m. msk = Some m \<and> int (length m) \<noteq> d) \<Longrightarrow>
   MaskWarning d msk \<in> set (fst (coupling_spline_transformer L d (Some fn) ns tls tb nb msk))"
  by (cases msk) (auto simp: coupling_spline_transformer_def Let_def)

lemma cst_mask_replaced:
  "msk = None \<or> (\<exists>m. msk = Some m \<and> int (length m) \<noteq> d) \<Longrightarrow>
   snd (coupling_spline_transformer L d (Some fn) ns tls tb nb msk)
     = snd (coupling_spline_transformer L d (Some fn) ns tls tb nb (Some (make_mask d)))"
  by (cases msk) (auto simp: cst_snd)

text \<open>
  Claim C8, as the code has it. Without a net-creating function,
  \<^verbatim>\<open>coupling_spline_transformer\<close> issues its warning and raises \<^verbatim>\<open>SystemExit\<close>. With one,
  its own \<^verbatim>\<open>exit()\<close> is not reached: an exception that leaves it was raised by
  \<^verbatim>\<open>int(num_stacks)\<close> or by a constructor of the library, so \<^verbatim>\<open>SystemExit\<close> leaves it only
  if one of these raises it. When \<^verbatim>\<open>num_stacks\<close> is an int or \<^verbatim>\<open>int()\<close> converts it to \<open>n\<close>,
  and the constructors accept their arguments, it returns the \<^verbatim>\<open>CompositeTransform\<close> of
  \<open>n\<close> coupling transforms and the permutation. A mask that is \<^verbatim>\<open>None\<close> or of the wrong
  length raises nothing by itself: the warning is issued, every coupling transform is
  built with \<open>make_mask input_dim\<close>, and the result is the one of the call with
  \<open>make_mask input_dim\<close> passed as the mask.
\<close>

theorem coupling_spline_transformer_exit:
  fixes L :: "('f, 't) nflows" and fn :: 'f
  defines "M \<equiv> \<lambda>input_dim msk. (case msk of None \<Rightarrow> make_mask input_dim
                     | Some m \<Rightarrow> if int (length m) = input_dim then m else make_mask input_dim)"
    and "S \<equiv> \<lambda>tls. (case tls of None \<Rightarrow> ''linear'' | Some s \<Rightarrow> s)"
  shows
    "coupling_spline_transformer L input_dim None num_stacks tls tail_bounds nbins msk
       = ([UserWarning ''No net create function was passed.''], Inl SystemExit)
     \<and> (\<forall>e. snd (coupling_spline_transformer L input_dim (Some fn) num_stacks tls tail_bounds
                   nbins msk) = Inl e
            \<longrightarrow> int_of_num_stacks num_stacks = Inl e
                \<or> (\<exists>i m s. rq_spline_raises L i m fn tail_bounds nbins s False = Some e)
                \<or> ReversePermutation_raises L input_dim = Some e
                \<or> (\<exists>ts. CompositeTransform_raises L ts = Some e))
     \<and> (\<forall>n. int_of_num_stacks num_stacks = Inr n
              \<and> constructors_accept L input_dim fn n tail_bounds nbins (M input_dim msk) (S tls)
            \<longrightarrow> snd (coupling_spline_transformer L input_dim (Some fn) num_stacks tls
                       tail_bounds nbins msk)
                = Inr (CompositeTransform
                    (replicate (nat n)
                       (PiecewiseRationalQuadraticCouplingTransform (M input_dim msk) fn
                          tail_bounds nbins (S tls) False)
                     @ [ReversePermutation input_dim])))
     \<and> (msk = None \<or> (\<exists>m. msk = Some m \<and> int (length m) \<noteq> input_dim)
          \<longrightarrow> M input_dim msk = make_mask input_dim
              \<and> MaskWarning input_dim msk
                  \<in> set (fst (coupling_spline_transformer L input_dim (Some fn) num_stacks tls
                                tail_bounds nbins msk))
              \<and> snd (coupling_spline_transformer L input_dim (Some fn) num_stacks tls
                        tail_bounds nbins msk)
                = snd (coupling_spline_transformer L input_dim (Some fn) num_stacks tls
                         tail_bounds nbins (Some (make_mask input_dim))))
     \<and> (int_of_num_stacks num_stacks \<noteq> Inl SystemExit
          \<and> (\<forall>i m s. rq_spline_raises L i m fn tail_bounds nbins s False \<noteq> Some SystemExit)
          \<and> ReversePermutation_raises L input_dim \<noteq> Some SystemExit
          \<and> (\<forall>ts. CompositeTransform_raises L ts \<noteq> Some SystemExit)
          \<longrightarrow> snd (coupling_spline_transformer L input_dim (Some fn) num_stacks tls
                     tail_bounds nbins msk) \<noteq> Inl SystemExit)"
proof (intro conjI allI impI)
  show "coupling_spline_transformer L input_dim None num_stacks tls tail_bounds nbins msk
       = ([UserWarning ''No net create function was passed.''], Inl SystemExit)"
    by (rule cst_None)
next
  fix e
  assume "snd (coupling_spline_transformer L input_dim (Some fn) num_stacks tls tail_bounds
                   nbins msk) = Inl e"
  then show "int_of_num_stacks num_stacks = Inl e
                \<or> (\<exists>i m s. rq_spline_raises L i m fn tail_bounds nbins s False = Some e)
                \<or> ReversePermutation_raises L input_dim = Some e
                \<or> (\<exists>ts. CompositeTransform_raises L ts = Some e)"
    by (rule cst_Inl)
next
  fix n
  assume "int_of_num_stacks num_stacks = Inr n
              \<and> constructors_accept L input_dim fn n tail_bounds nbins (M input_dim msk) (S tls)"
  then show "snd (coupling_spline_transformer L input_dim (Some fn) num_stacks tls
                       tail_bounds nbins msk)
                = Inr (CompositeTransform
                    (replicate (nat n)
                       (PiecewiseRationalQuadraticCouplingTransform (M input_dim msk) fn
                          tail_bounds nbins (S tls) False)
                     @ [ReversePermutation input_dim]))"
    using cst_accepts [of num_stacks n L input_dim fn tail_bounds nbins msk tls]
    by (simp add: M_def S_def)
next
  assume b: "msk = None \<or> (\<exists>m. msk = Some m \<and> int (length m) \<noteq> input_dim)"
  then show "M input_dim msk = make_mask input_dim" by (auto simp: M_def)
  from b show "MaskWarning input_dim msk
                  \<in> set (fst (coupling_spline_transformer L input_dim (Some fn) num_stacks tls
                                tail_bounds nbins msk))"
    by (rule cst_fst_mask)
  from b show "snd (coupling_spline_transformer L input_dim (Some fn) num_stacks tls
                        tail_bounds nbins msk)
                = snd (coupling_spline_transformer L input_dim (Some fn) num_stacks tls
                         tail_bounds nbins (Some (make_mask input_dim)))"
    by (rule cst_mask_replaced)
next
  assume "int_of_num_stacks num_stacks \<noteq> Inl SystemExit
          \<and> (\<forall>i m s. rq_spline_raises L i m fn tail_bounds nbins s False \<noteq> Some SystemExit)
          \<and> ReversePermutation_raises L input_dim \<noteq> Some SystemExit
          \<and> (\<forall>ts. CompositeTransform_raises L ts \<noteq> Some SystemExit)"
  with cst_Inl [of L input_dim fn num_stacks tls tail_bounds nbins msk SystemExit]
  show "snd (coupling_spline_transformer L input_dim (Some fn) num_stacks tls
                     tail_bounds nbins msk) \<noteq> Inl SystemExit"
    by blast
qed

theorem coupling_spline_transformer_exit_witness:
  "coupling_spline_transformer nflows_checks 4 (None :: string option) (IntArg 3) None (1::nat) 8
       None
     = ([UserWarning ''No net create function was passed.''], Inl SystemExit)
   \<and> snd (coupling_spline_transformer nflows_checks 4 (Some ''net'') (NonIntArg (Inr 1)) None
            (1::nat) 8 (Some [1, 0]))
     = Inr (CompositeTransform
         [PiecewiseRationalQuadraticCouplingTransform [1, 1, 0, 0] ''net'' 1 8 ''linear'' False,
          ReversePermutation 4])
   \<and> MaskWarning 4 (Some [1, 0])
       \<in> set (fst (coupling_spline_transformer nflows_checks 4 (Some ''net'')
                     (NonIntArg (Inr 1)) None (1::nat) 8 (Some [1, 0])))"
proof -
  have m: "make_mask 4 = [1, 1, 0, 0]" by (simp add: make_mask_div eval_nat_numeral)
  have a: "constructors_accept (nflows_checks :: (string, nat) nflows) 4 ''net'' 1 1 8
             [1, 1, 0, 0] ''linear''"
    by (simp add: nflows_checks_accept)
  have b: "Some [1, 0] = None \<or> (\<exists>m. Some [1, 0] = Some m \<and> int (length m) \<noteq> (4::int))"
    by simp
  note t = coupling_spline_transformer_exit
         [where L = "nflows_checks :: (string, nat) nflows" and input_dim = 4
            and num_stacks = "NonIntArg (Inr 1)" and tls = None and tail_bounds = "1::nat"
            and nbins = 8 and msk = "Some [1, 0]" and fn = "''net''"]
  note u = coupling_spline_transformer_exit
         [where L = "nflows_checks :: (string, nat) nflows" and input_dim = 4
            and num_stacks = "IntArg 3" and tls = None and tail_bounds = "1::nat"
            and nbins = 8 and msk = None and fn = "''net''"]
  from u have 1: "coupling_spline_transformer nflows_checks 4 (None :: string option) (IntArg 3)
       None (1::nat) 8 None
     = ([UserWarning ''No net create function was passed.''], Inl SystemExit)"
    by (rule conjunct1)
  have pre: "int_of_num_stacks (NonIntArg (Inr 1)) = Inr 1
      \<and> constructors_accept (nflows_checks :: (string, nat) nflows) 4 ''net'' 1 1 8
          (case Some [1, 0] of None \<Rightarrow> make_mask 4
           | Some m \<Rightarrow> if int (length m) = 4 then m else make_mask 4)
          (case None of None \<Rightarrow> ''linear'' | Some s \<Rightarrow> s)"
    using a m by simp
  from t [THEN conjunct2, THEN conjunct2, THEN conjunct1, rule_format, OF pre] m
  have 2: "snd (coupling_spline_transformer nflows_checks 4 (Some ''net'') (NonIntArg (Inr 1)) None
            (1::nat) 8 (Some [1, 0]))
     = Inr (CompositeTransform
         [PiecewiseRationalQuadraticCouplingTransform [1, 1, 0, 0] ''net'' 1 8 ''linear'' False,
          ReversePermutation 4])"
    by simp
  from t [THEN conjunct2, THEN conjunct2, THEN conjunct2, THEN conjunct1, rule_format, OF b]
  have 3: "MaskWarning 4 (Some [1, 0])
       \<in> set (fst (coupling_spline_transformer nflows_checks 4 (Some ''net'')
                     (NonIntArg (Inr 1)) None (1::nat) 8 (Some [1, 0])))"
    by (rule conjunct2 [THEN conjunct1])
  from 1 2 3 show ?thesis by (intro conjI)
qed

text \<open>
  Claim C8, as stated, fails: a net-creating function does not suffice for a transform
  to be returned. With \<^verbatim>\<open>num_stacks=None\<close> the lines for a \<^verbatim>\<open>num_stacks\<close> that is no int
  warn and call \<^verbatim>\<open>int(None)\<close>, which raises \<^verbatim>\<open>TypeError\<close>.
\<close>

theorem coupling_spline_transformer_num_stacks_None:
  "coupling_spline_transformer nflows_checks 4 (Some ''net'') (NonIntArg (Inl TypeError)) None
       (1::nat) 8 (Some [1, 1, 0, 0])
     = ([UserWarning ''num_stacks must be an integer.''], Inl TypeError)"
  by (simp add: coupling_spline_transformer_def)

subsection \<open>The flow\<close>

lemma cst_Inr_Composite:
  assumes "coupling_spline_transformer L d f ns tls tb nb msk = (ws, Inr t)"
  shows "\<exists>ts. t = CompositeTransform ts"
proof (cases f)
  case None
  with assms show ?thesis by (simp add: cst_None)
next
  case (Some fn)
  with assms have "snd (coupling_spline_transformer L d (Some fn) ns tls tb nb msk) = Inr t"
    by simp
  from cst_Inr [OF this] show ?thesis by blast
qed

lemma coupling_flow_unfold:
  "coupling_spline_transformer L d f ns tls tb nb None = (ws, r) \<Longrightarrow>
   coupling_flow L d f ns tls tb nb bd =
     (ws, and_then r (\<lambda>t.
          and_then (construct (StandardNormal_raises L [d]) (StandardNormal [d])) (\<lambda>b.
          construct (Flow_raises L t b) (Flow t b))))"
  by (simp add: coupling_flow_def)

text \<open>
  Claim C6, as the code has it. Let \<^verbatim>\<open>coupling_spline_transformer\<close>, on the six arguments
  handed on (the mask left at \<^verbatim>\<open>None\<close>), issue the warnings \<open>ws\<close> and end in \<open>r\<close>. If \<open>r\<close>
  is an exception, \<^verbatim>\<open>coupling_flow\<close> issues \<open>ws\<close> and raises it. If \<open>r\<close> is a transform \<open>t\<close>
  (always a \<^verbatim>\<open>CompositeTransform\<close>) and the constructors \<^verbatim>\<open>StandardNormal\<close> and \<^verbatim>\<open>Flow\<close>
  accept, \<^verbatim>\<open>coupling_flow\<close> issues \<open>ws\<close> and returns the \<^verbatim>\<open>Flow\<close> of \<open>t\<close> and a standard
  normal of shape \<open>[input_dim]\<close>. Every flow it returns is of this form.
\<close>

theorem coupling_flow_pairs:
  assumes "coupling_spline_transformer L input_dim net_create_fn num_stacks tls tail_bounds nbins
             None = (ws, r)"
  shows
    "(\<forall>e. r = Inl e
         \<longrightarrow> coupling_flow L input_dim net_create_fn num_stacks tls tail_bounds nbins base_density
               = (ws, Inl e))
     \<and> (\<forall>t. r = Inr t \<and> StandardNormal_raises L [input_dim] = None
              \<and> Flow_raises L t (StandardNormal [input_dim]) = None
         \<longrightarrow> (\<exists>ts. t = CompositeTransform ts)
             \<and> coupling_flow L input_dim net_create_fn num_stacks tls tail_bounds nbins
                 base_density
               = (ws, Inr (Flow t (StandardNormal [input_dim]))))
     \<and> (\<forall>fl. snd (coupling_flow L input_dim net_create_fn num_stacks tls tail_bounds nbins
                    base_density) = Inr fl
         \<longrightarrow> (\<exists>ts. r = Inr (CompositeTransform ts)
                    \<and> fl = Flow (CompositeTransform ts) (StandardNormal [input_dim])))"
proof (intro conjI allI impI)
  fix e assume "r = Inl e"
  with coupling_flow_unfold [OF assms, of base_density]
  show "coupling_flow L input_dim net_create_fn num_stacks tls tail_bounds nbins base_density
               = (ws, Inl e)"
    by simp
next
  fix t
  assume a: "r = Inr t \<and> StandardNormal_raises L [input_dim] = None
              \<and> Flow_raises L t (StandardNormal [input_dim]) = None"
  with assms show "\<exists>ts. t = CompositeTransform ts" by (auto dest: cst_Inr_Composite)
  from a coupling_flow_unfold [OF assms, of base_density]
  show "coupling_flow L input_dim net_create_fn num_stacks tls tail_bounds nbins base_density
               = (ws, Inr (Flow t (StandardNormal [input_dim])))"
    by simp
next
  fix fl
  assume "snd (coupling_flow L input_dim net_create_fn num_stacks tls tail_bounds nbins
                    base_density) = Inr fl"
  with coupling_flow_unfold [OF assms, of base_density]
  obtain t where t: "r = Inr t" and fl: "fl = Flow t (StandardNormal [input_dim])"
    by (auto simp: and_then_eq_Inr construct_eq_Inr)
  from t assms obtain ts where "t = CompositeTransform ts" by (auto dest: cst_Inr_Composite)
  with t fl show "\<exists>ts. r = Inr (CompositeTransform ts)
                    \<and> fl = Flow (CompositeTransform ts) (StandardNormal [input_dim])"
    by simp
qed

theorem coupling_flow_pairs_witness:
  "coupling_flow nflows_checks 3 (Some ''net'') (IntArg 1) (Some ''cubic'') (2::nat) 8 ''Gaussian''
     = ([MaskWarning 3 None],
        Inr (Flow (CompositeTransform
                     [PiecewiseRationalQuadraticCouplingTransform [1, 1, 0] ''net'' 2 8 ''cubic''
                        False,
                      ReversePermutation 3])
                  (StandardNormal [3])))"
proof -
  have c: "coupling_spline_transformer nflows_checks 3 (Some ''net'') (IntArg 1) (Some ''cubic'')
             (2::nat) 8 None
             = ([MaskWarning 3 None],
                Inr (CompositeTransform
                       [PiecewiseRationalQuadraticCouplingTransform [1, 1, 0] ''net'' 2 8 ''cubic''
                          False,
                        ReversePermutation 3]))"
    by (simp add: coupling_spline_transformer_def make_mask_div nflows_checks_def rq_spline_def
          eval_nat_numeral)
  have p: "Inr (CompositeTransform
                  [PiecewiseRationalQuadraticCouplingTransform [1, 1, 0] ''net'' (2::nat) 8
                     ''cubic'' False,
                   ReversePermutation 3])
             = (Inr (CompositeTransform
                  [PiecewiseRationalQuadraticCouplingTransform [1, 1, 0] ''net'' (2::nat) 8
                     ''cubic'' False,
                   ReversePermutation 3]) :: error + (string, nat) transform)
           \<and> StandardNormal_raises (nflows_checks :: (string, nat) nflows) [3] = None
           \<and> Flow_raises (nflows_checks :: (string, nat) nflows)
               (CompositeTransform
                  [PiecewiseRationalQuadraticCouplingTransform [1, 1, 0] ''net'' (2::nat) 8
                     ''cubic'' False,
                   ReversePermutation 3]) (StandardNormal [3]) = None"
    by (simp add: nflows_checks_def)
  from coupling_flow_pairs [OF c, of "''Gaussian''", THEN conjunct2, THEN conjunct1, rule_format,
         OF p]
  show ?thesis by (rule conjunct2)
qed

text \<open>
  Claim C6, as stated, fails: it is not for every \<open>input_dim\<close> that a flow is returned.
  With \<open>input_dim = 0\<close> and no stacks, \<^verbatim>\<open>ReversePermutation(0)\<close> raises \<^verbatim>\<open>ValueError\<close> inside
  \<^verbatim>\<open>coupling_spline_transformer\<close>, and the exception leaves \<^verbatim>\<open>coupling_flow\<close>.
\<close>

theorem coupling_flow_zero_dim:
  "coupling_flow nflows_checks 0 (Some ''net'') (IntArg 0) None (1::nat) 8 ''Gaussian''
     = ([MaskWarning 0 None], Inl ValueError)"
  by (simp add: coupling_flow_def coupling_spline_transformer_def make_mask_div nflows_checks_def)

text \<open>
  Claim C2. The argument \<^verbatim>\<open>base_density\<close> has no effect: two calls that differ only in it
  (even in its type) give the same result, and every flow returned has the base
  distribution \<^verbatim>\<open>StandardNormal\<close> of shape \<open>[input_dim]\<close>. A flow is returned exactly when
  \<^verbatim>\<open>coupling_spline_transformer\<close> returns a transform and the constructors
  \<^verbatim>\<open>StandardNormal\<close> and \<^verbatim>\<open>Flow\<close> accept.
\<close>

theorem coupling_flow_ignores_base_density:
  "coupling_flow L input_dim (net_create_fn :: 'f option) num_stacks tls (tail_bounds :: 't) nbins
       (base_density :: 'd)
     = coupling_flow L input_dim net_create_fn num_stacks tls tail_bounds nbins
         (base_density' :: 'e)
   \<and> (\<forall>ws fl. coupling_flow L input_dim net_create_fn num_stacks tls tail_bounds nbins
                 base_density = (ws, Inr fl)
              \<longrightarrow> flow_distribution fl = StandardNormal [input_dim])
   \<and> ((\<exists>ws fl. coupling_flow L input_dim net_create_fn num_stacks tls tail_bounds nbins
                  base_density = (ws, Inr fl))
      = (\<exists>ws t. coupling_spline_transformer L input_dim net_create_fn num_stacks tls tail_bounds
                  nbins None = (ws, Inr t)
               \<and> StandardNormal_raises L [input_dim] = None
               \<and> Flow_raises L t (StandardNormal [input_dim]) = None))"
proof (intro conjI allI impI)
  show "coupling_flow L input_dim net_create_fn num_stacks tls tail_bounds nbins base_density
     = coupling_flow L input_dim net_create_fn num_stacks tls tail_bounds nbins base_density'"
    by (simp add: coupling_flow_def)
next
  fix ws fl
  assume "coupling_flow L input_dim net_create_fn num_stacks tls tail_bounds nbins base_density
                 = (ws, Inr fl)"
  then show "flow_distribution fl = StandardNormal [input_dim]"
    by (auto simp: coupling_flow_def and_then_eq_Inr construct_eq_Inr split: prod.splits)
next
  show "(\<exists>ws fl. coupling_flow L input_dim net_create_fn num_stacks tls tail_bounds nbins
                  base_density = (ws, Inr fl))
      = (\<exists>ws t. coupling_spline_transformer L input_dim net_create_fn num_stacks tls tail_bounds
                  nbins None = (ws, Inr t)
               \<and> StandardNormal_raises L [input_dim] = None
               \<and> Flow_raises L t (StandardNormal [input_dim]) = None)"
    by (cases "coupling_spline_transformer L input_dim net_create_fn num_stacks tls tail_bounds
                  nbins None")
       (auto simp: coupling_flow_def and_then_eq_Inr construct_eq_Inr)
qed

theorem coupling_flow_ignores_base_density_witness:
  "coupling_flow nflows_checks 2 (Some ''net'') (IntArg 0) None (1::nat) 8 ''Uniform''
     = coupling_flow nflows_checks 2 (Some ''net'') (IntArg 0) None (1::nat) 8 (7::int)
   \<and> coupling_flow nflows_checks 2 (Some ''net'') (IntArg 0) None (1::nat) 8 (7::int)
     = ([MaskWarning 2 None],
        Inr (Flow (CompositeTransform [ReversePermutation 2]) (StandardNormal [2])))"
proof -
  note t = coupling_flow_ignores_base_density
             [of nflows_checks 2 "Some ''net''" "IntArg 0" None "1::nat" 8 "''Uniform''" "7::int"]
  from t have "coupling_flow nflows_checks 2 (Some ''net'') (IntArg 0) None (1::nat) 8 ''Uniform''
     = coupling_flow nflows_checks 2 (Some ''net'') (IntArg 0) None (1::nat) 8 (7::int)"
    by (rule conjunct1)
  moreover have "coupling_flow nflows_checks 2 (Some ''net'') (IntArg 0) None (1::nat) 8 (7::int)
     = ([MaskWarning 2 None],
        Inr (Flow (CompositeTransform [ReversePermutation 2]) (StandardNormal [2])))"
    by (simp add: coupling_flow_def coupling_spline_transformer_def nflows_checks_def)
  ultimately show ?thesis by (rule conjI)
qed

section \<open>Properties of models/dense.py\<close>

subsection \<open>Auxiliary facts on the constructor\<close>

lemma Linear_new_eq_Inr: "(Linear_new T a b = Inr l) = (Linear_raises T a b = None \<and> l = Linear a b)"
  by (simp add: Linear_new_def construct_eq_Inr)

lemma Linear_new_eq_Inl: "(Linear_new T a b = Inl e) = (Linear_raises T a b = Some e)"
  by (simp add: Linear_new_def construct_eq_Inl)

lemma new_layers_eq_Inr:
  "(new_layers T ls js = Inr r)
     = ((\<forall>i \<in> set js. Linear_raises T (ls ! i) (ls ! (i + 1)) = None)
        \<and> r = map (\<lambda>i. Linear (ls ! i) (ls ! (i + 1))) js)"
  by (induction js arbitrary: r) (auto simp: and_then_eq_Inr Linear_new_eq_Inr)

lemma new_layers_Inl:
  "new_layers T ls js = Inl e \<Longrightarrow> \<exists>i \<in> set js. Linear_raises T (ls ! i) (ls ! (i + 1)) = Some e"
  by (induction js) (auto simp: and_then_eq_Inl Linear_new_eq_Inl)

lemma pairs_zip:
  "map (\<lambda>i. (ls ! i, ls ! (i + 1))) [0 ..< length ls - 1] = zip (butlast ls) (tl ls)"
  by (rule nth_equalityI) (simp_all add: nth_butlast nth_tl)

lemma hidden_tail_eq_Inr:
  "(hidden_tail T ls = Inr r)
     = ((\<forall>p \<in> set (zip (butlast ls) (tl ls)). Linear_raises T (fst p) (snd p) = None)
        \<and> r = map2 Linear (butlast ls) (tl ls))"
proof -
  have s: "set (zip (butlast ls) (tl ls)) = (\<lambda>i. (ls ! i, ls ! (i + 1))) ` set [0 ..< length ls - 1]"
    by (simp only: pairs_zip [symmetric] set_map)
  have m: "map2 Linear (butlast ls) (tl ls) = map (\<lambda>i. Linear (ls ! i) (ls ! (i + 1))) [0 ..< length ls - 1]"
    by (simp only: pairs_zip [symmetric] map_map) (simp add: comp_def)
  show ?thesis
    unfolding hidden_tail_def new_layers_eq_Inr s m by auto
qed

lemma zip_cons_butlast:
  "ls \<noteq> [] \<Longrightarrow> zip (i # butlast ls) ls = (i, hd ls) # zip (butlast ls) (tl ls)"
  by (cases ls) simp_all

lemma DenseNet_init_fst:
  "islast_set kwargs \<Longrightarrow>
   fst (DenseNet_init T h input_dim output_dim ctx (Some r) op_act int_act kwargs)
     = extend_list h r [output_dim]"
  by (auto simp: DenseNet_init_def islast_set_def Let_def split: option.splits prod.splits)

lemma DenseNet_init_Some_snd:
  assumes "islast_set kwargs"
  shows "snd (snd (DenseNet_init T h input_dim output_dim ctx (Some r) op_act int_act kwargs)) =
     and_then
       (case ctx of None \<Rightarrow> Inr None
        | Some c \<Rightarrow> and_then (Linear_new T c (hd (cells h r @ [output_dim]))) (\<lambda>l. Inr (Some l)))
       (\<lambda>contextual1.
     and_then (Linear_new T input_dim (hd (cells h r @ [output_dim]))) (\<lambda>first.
     and_then (hidden_tail T (cells h r @ [output_dim])) (\<lambda>rest.
     Inr \<lparr>ipdim = input_dim, opdim = output_dim,
          op_activ = (case op_act of None \<Rightarrow> Identity | Some f \<Rightarrow> f),
          int_activ = (case int_act of None \<Rightarrow> relu | Some f \<Rightarrow> f),
          context' = ctx,
          layernorm = (if truthy (case kwargs ''layernorm'' of Some v \<Rightarrow> v | None \<Rightarrow> PyBool False)
                          \<and> truthy (case kwargs ''batchnorm'' of Some v \<Rightarrow> v | None \<Rightarrow> PyBool False)
                       then PyInt 0 else (case kwargs ''layernorm'' of Some v \<Rightarrow> v | None \<Rightarrow> PyBool False)),
          batchnorm = (if truthy (case kwargs ''layernorm'' of Some v \<Rightarrow> v | None \<Rightarrow> PyBool False)
                          \<and> truthy (case kwargs ''batchnorm'' of Some v \<Rightarrow> v | None \<Rightarrow> PyBool False)
                       then PyInt 1 else (case kwargs ''batchnorm'' of Some v \<Rightarrow> v | None \<Rightarrow> PyBool False)),
          islast = (case kwargs ''islast'' of Some v \<Rightarrow> v | None \<Rightarrow> PyBool True),
          layers = r,
          contextual = contextual1, hidden = [first] @ rest\<rparr>)))"
  using assms
  by (auto simp: DenseNet_init_def islast_set_def extend_list_def Let_def hd_conv_nth
           split: option.splits)

lemma DenseNet_init_Inr:
  assumes "islast_set kwargs"
    and "snd (snd (DenseNet_init T h input_dim output_dim ctx (Some r) op_act int_act kwargs)) = Inr net"
  shows "hidden net = map2 Linear (input_dim # cells h r) (cells h r @ [output_dim])"
    and "contextual net = map_option (\<lambda>c. Linear c (hd (cells h r @ [output_dim]))) ctx"
    and "op_activ net = (case op_act of None \<Rightarrow> Identity | Some f \<Rightarrow> f)"
    and "int_activ net = (case int_act of None \<Rightarrow> relu | Some f \<Rightarrow> f)"
    and "\<forall>p \<in> set (linear_sizes ctx input_dim (cells h r @ [output_dim])).
           Linear_raises T (fst p) (snd p) = None"
proof -
  let ?ls = "cells h r @ [output_dim]"
  from assms(2) obtain c1 f1 rest where
    c1: "(case ctx of None \<Rightarrow> Inr None
          | Some c \<Rightarrow> and_then (Linear_new T c (hd ?ls)) (\<lambda>l. Inr (Some l))) = Inr c1"
    and f1: "Linear_new T input_dim (hd ?ls) = Inr f1"
    and rest: "hidden_tail T ?ls = Inr rest"
    and net: "net = \<lparr>ipdim = input_dim, opdim = output_dim,
          op_activ = (case op_act of None \<Rightarrow> Identity | Some f \<Rightarrow> f),
          int_activ = (case int_act of None \<Rightarrow> relu | Some f \<Rightarrow> f),
          context' = ctx,
          layernorm = (if truthy (case kwargs ''layernorm'' of Some v \<Rightarrow> v | None \<Rightarrow> PyBool False)
                          \<and> truthy (case kwargs ''batchnorm'' of Some v \<Rightarrow> v | None \<Rightarrow> PyBool False)
                       then PyInt 0 else (case kwargs ''layernorm'' of Some v \<Rightarrow> v | None \<Rightarrow> PyBool False)),
          batchnorm = (if truthy (case kwargs ''layernorm'' of Some v \<Rightarrow> v | None \<Rightarrow> PyBool False)
                          \<and> truthy (case kwargs ''batchnorm'' of Some v \<Rightarrow> v | None \<Rightarrow> PyBool False)
                       then PyInt 1 else (case kwargs ''batchnorm'' of Some v \<Rightarrow> v | None \<Rightarrow> PyBool False)),
          islast = (case kwargs ''islast'' of Some v \<Rightarrow> v | None \<Rightarrow> PyBool True),
          layers = r,
          contextual = c1, hidden = [f1] @ rest\<rparr>"
    unfolding DenseNet_init_Some_snd [OF assms(1)] and_then_eq_Inr by blast
  from f1 have f1': "Linear_raises T input_dim (hd ?ls) = None" "f1 = Linear input_dim (hd ?ls)"
    by (simp_all add: Linear_new_eq_Inr)
  from rest have rest': "\<forall>p \<in> set (zip (butlast ?ls) (tl ?ls)). Linear_raises T (fst p) (snd p) = None"
    "rest = map2 Linear (butlast ?ls) (tl ?ls)"
    by (simp_all add: hidden_tail_eq_Inr)
  have z: "zip (input_dim # butlast ?ls) ?ls = (input_dim, hd ?ls) # zip (butlast ?ls) (tl ?ls)"
    by (rule zip_cons_butlast) simp
  from net f1' rest' z show "hidden net = map2 Linear (input_dim # cells h r) (cells h r @ [output_dim])"
    by (simp add: butlast_append)
  from net show "op_activ net = (case op_act of None \<Rightarrow> Identity | Some f \<Rightarrow> f)"
    and "int_activ net = (case int_act of None \<Rightarrow> relu | Some f \<Rightarrow> f)" by simp_all
  from c1 net show "contextual net = map_option (\<lambda>c. Linear c (hd ?ls)) ctx"
    by (cases ctx) (auto simp: and_then_eq_Inr Linear_new_eq_Inr)
  from c1 have "\<forall>c. ctx = Some c \<longrightarrow> Linear_raises T c (hd ?ls) = None"
    by (auto simp: and_then_eq_Inr Linear_new_eq_Inr)
  with f1' rest' z show "\<forall>p \<in> set (linear_sizes ctx input_dim ?ls).
           Linear_raises T (fst p) (snd p) = None"
    unfolding linear_sizes_def by (cases ctx) auto
qed

lemma DenseNet_init_accepts:
  assumes "islast_set kwargs"
    and "\<forall>p \<in> set (linear_sizes ctx input_dim (cells h r @ [output_dim])).
           Linear_raises T (fst p) (snd p) = None"
  shows "\<exists>net. snd (snd (DenseNet_init T h input_dim output_dim ctx (Some r) op_act int_act kwargs))
           = Inr net"
proof -
  let ?ls = "cells h r @ [output_dim]"
  have z: "zip (input_dim # butlast ?ls) ?ls = (input_dim, hd ?ls) # zip (butlast ?ls) (tl ?ls)"
    by (rule zip_cons_butlast) simp
  from assms(2) z have a: "Linear_raises T input_dim (hd ?ls) = None"
    and b: "\<forall>p \<in> set (zip (butlast ?ls) (tl ?ls)). Linear_raises T (fst p) (snd p) = None"
    and c: "\<forall>c. ctx = Some c \<longrightarrow> Linear_raises T c (hd ?ls) = None"
    unfolding linear_sizes_def by (auto split: option.splits)
  from b have "hidden_tail T ?ls = Inr (map2 Linear (butlast ?ls) (tl ?ls))"
    by (simp add: hidden_tail_eq_Inr)
  with a c show ?thesis
    unfolding DenseNet_init_Some_snd [OF assms(1)]
    by (cases ctx) (simp_all add: Linear_new_def)
qed

subsection \<open>Auxiliary facts on the forward pass\<close>

lemma foldl_and_then_Inl:
  "foldl (\<lambda>m l. and_then m (g l)) (Inl e) ls = Inl e"
  by (induction ls) simp_all

lemma foldl_and_then:
  "foldl (\<lambda>m l. and_then m (g l)) m ls = and_then m (\<lambda>v. foldl (\<lambda>m l. and_then m (g l)) (Inr v) ls)"
  by (cases m; cases ls) (simp_all add: foldl_and_then_Inl)

lemma forward_loop_no_context:
  "forward_loop T net None i ls x =
     foldl (\<lambda>m l. and_then m (\<lambda>v. and_then (linear_call T l v) (activ_call T (int_activ net))))
       (Inr x) ls"
proof (induction ls arbitrary: i x)
  case Nil
  then show ?case by simp
next
  case (Cons l ls)
  let ?g = "\<lambda>l v. and_then (linear_call T l v) (activ_call T (int_activ net))"
  have "forward_loop T net None i (l # ls) x
          = and_then (?g l x) (\<lambda>v. forward_loop T net None (Suc i) ls v)"
    by (cases "linear_call T l x") simp_all
  also have "\<dots> = and_then (?g l x) (\<lambda>v. foldl (\<lambda>m l. and_then m (?g l)) (Inr v) ls)"
    by (simp add: Cons.IH)
  also have "\<dots> = foldl (\<lambda>m l. and_then m (?g l)) (?g l x) ls"
    by (rule foldl_and_then [symmetric])
  finally show ?case by simp
qed

lemma forward_loop_later:
  "0 < i \<Longrightarrow> forward_loop T net ctx i ls x = forward_loop T net None i ls x"
  by (induction ls arbitrary: i x) (auto simp: and_then_def split: option.splits sum.splits)

lemma forward_loop_cong:
  "contextual n2 = contextual n1 \<Longrightarrow> int_activ n2 = int_activ n1 \<Longrightarrow>
   forward_loop T n2 ctx i ls x = forward_loop T n1 ctx i ls x"
  by (induction ls arbitrary: i x) (auto simp: and_then_def split: option.splits sum.splits)

lemma forward_cong:
  "contextual n2 = contextual n1 \<Longrightarrow> int_activ n2 = int_activ n1 \<Longrightarrow>
   op_activ n2 = op_activ n1 \<Longrightarrow> hidden n2 = hidden n1 \<Longrightarrow>
   forward T n2 x ctx = forward T n1 x ctx"
  using forward_loop_cong [of n2 n1 T ctx 0 "butlast (hidden n1)" x]
  by (auto simp: forward_def and_then_def split: sum.splits)

lemma forward_no_context:
  "hidden net = ls @ [l] \<Longrightarrow>
   forward T net x None =
     and_then
       (foldl (\<lambda>m l. and_then m (\<lambda>v. and_then (linear_call T l v) (activ_call T (int_activ net))))
          (Inr x) ls)
       (\<lambda>v. and_then (linear_call T l v) (activ_call T (op_activ net)))"
  by (simp add: forward_def forward_loop_no_context)

lemma forward_with_context:
  "contextual net = Some cl \<Longrightarrow> hidden net = l1 # ls @ [l] \<Longrightarrow>
   forward T net x (Some c) =
     and_then (linear_call T l1 x) (\<lambda>x1.
     and_then (linear_call T cl c) (\<lambda>y.
     and_then (iadd T x1 y) (\<lambda>x2.
     and_then (activ_call T (int_activ net) x2) (\<lambda>x3.
     and_then
       (foldl (\<lambda>m l. and_then m (\<lambda>v. and_then (linear_call T l v) (activ_call T (int_activ net))))
          (Inr x3) ls)
       (\<lambda>v. and_then (linear_call T l v) (activ_call T (op_activ net)))))))"
  by (cases "linear_call T l1 x"; cases "linear_call T cl c")
     (auto simp: forward_def butlast_append forward_loop_later [of "Suc 0"] forward_loop_no_context
           and_then_def split: sum.splits)

lemma forward_single_layer:
  "hidden net = [l] \<Longrightarrow>
   forward T net x ctx = and_then (linear_call T l x) (activ_call T (op_activ net))"
  by (simp add: forward_def)

lemma map2_Linear_snoc:
  "ns \<noteq> [] \<Longrightarrow>
   map2 Linear (i # ns) (ns @ [out]) = map2 Linear (i # butlast ns) ns @ [Linear (last ns) out]"
  by (induction ns arbitrary: i) auto

lemma activ_call_cases:
  "activ_call T a y =
     (case a of Identity \<Rightarrow> Inr y | relu \<Rightarrow> relu_call T y | Callable f \<Rightarrow> callable_call T f y)"
  by (cases a) simp_all

lemma foldl_returns:
  "(\<forall>l v. \<exists>y. g l v = Inr y) \<Longrightarrow> \<exists>y. foldl (\<lambda>m l. and_then m (g l)) (Inr x) ls = Inr y"
proof (induction ls arbitrary: x)
  case Nil
  then show ?case by simp
next
  case (Cons l ls)
  from Cons.prems obtain y where "g l x = Inr y" by blast
  with Cons.IH [OF Cons.prems, of y] show ?case by simp
qed

subsection \<open>Layers and the forward pass without context\<close>



subsection \<open>The list of the caller\<close>

lemma length_linear_chain: "length (map2 Linear (i # ns) (ns @ [out])) = length ns + 1"
  by simp

text \<open>
  Claim C7. With \<^verbatim>\<open>islast\<close> true (the default), the constructor appends \<open>output_dim\<close> to
  the list object it was given: after the call, also one that ends in an exception, that
  list is one element longer, and no other list has changed. A net that is returned has
  as many linear layers as the list had elements, plus one. A second net built from the
  same list object (again with \<^verbatim>\<open>islast\<close> true, any other arguments) has one linear layer
  more than the first. Each of the two nets is returned exactly when \<^verbatim>\<open>Linear\<close> accepts
  the sizes of its modules; for the second, these are sizes of the list extended twice.
\<close>

theorem DenseNet_init_extends_node_list:
  fixes T :: "('a, 'v) torch"
  assumes "islast_set kwargs" and "islast_set kwargs2"
  shows
    "cells (fst (DenseNet_init T h input_dim output_dim ctx (Some r) op_act int_act kwargs)) r
       = cells h r @ [output_dim]
     \<and> length (cells (fst (DenseNet_init T h input_dim output_dim ctx (Some r) op_act int_act
                              kwargs)) r)
       = length (cells h r) + 1
     \<and> (\<forall>r'. r' \<noteq> r
          \<longrightarrow> cells (fst (DenseNet_init T h input_dim output_dim ctx (Some r) op_act int_act
                              kwargs)) r'
              = cells h r')
     \<and> (\<forall>n1. snd (snd (DenseNet_init T h input_dim output_dim ctx (Some r) op_act int_act
                          kwargs)) = Inr n1
          \<longrightarrow> length (hidden n1) = length (cells h r) + 1)
     \<and> (\<forall>n1 n2.
            snd (snd (DenseNet_init T h input_dim output_dim ctx (Some r) op_act int_act kwargs))
              = Inr n1
          \<and> snd (snd (DenseNet_init T
                         (fst (DenseNet_init T h input_dim output_dim ctx (Some r) op_act int_act
                                 kwargs))
                         input_dim2 output_dim2 ctx2 (Some r) op_act2 int_act2 kwargs2))
              = Inr n2
          \<longrightarrow> length (hidden n2) = length (hidden n1) + 1)
     \<and> ((\<exists>n1. snd (snd (DenseNet_init T h input_dim output_dim ctx (Some r) op_act int_act
                           kwargs)) = Inr n1)
        = (\<forall>p \<in> set (linear_sizes ctx input_dim (cells h r @ [output_dim])).
             Linear_raises T (fst p) (snd p) = None))
     \<and> ((\<exists>n2. snd (snd (DenseNet_init T
                         (fst (DenseNet_init T h input_dim output_dim ctx (Some r) op_act int_act
                                 kwargs))
                         input_dim2 output_dim2 ctx2 (Some r) op_act2 int_act2 kwargs2))
              = Inr n2)
        = (\<forall>p \<in> set (linear_sizes ctx2 input_dim2 (cells h r @ [output_dim, output_dim2])).
             Linear_raises T (fst p) (snd p) = None))"
proof -
  let ?i1 = "DenseNet_init T h input_dim output_dim ctx (Some r) op_act int_act kwargs"
  let ?i2 = "DenseNet_init T (fst ?i1) input_dim2 output_dim2 ctx2 (Some r) op_act2 int_act2 kwargs2"
  have h1: "fst ?i1 = extend_list h r [output_dim]" by (rule DenseNet_init_fst [OF assms(1)])
  then have c: "cells (fst ?i1) r = cells h r @ [output_dim]"
    and f: "\<forall>r'. r' \<noteq> r \<longrightarrow> cells (fst ?i1) r' = cells h r'"
    by (simp_all add: extend_list_def)
  from c have l: "length (cells (fst ?i1) r) = length (cells h r) + 1" by simp
  have n1: "\<forall>n1. snd (snd ?i1) = Inr n1 \<longrightarrow> length (hidden n1) = length (cells h r) + 1"
    using DenseNet_init_Inr(1) [OF assms(1), of T h input_dim output_dim ctx r op_act int_act]
    by (auto simp: length_linear_chain simp del: length_map)
  have n2: "\<forall>n2. snd (snd ?i2) = Inr n2 \<longrightarrow> length (hidden n2) = length (cells (fst ?i1) r) + 1"
    using DenseNet_init_Inr(1) [OF assms(2), of T "fst ?i1" input_dim2 output_dim2 ctx2 r op_act2
        int_act2]
    by (auto simp: length_linear_chain simp del: length_map)
  from n1 n2 l have n12: "\<forall>n1 n2. snd (snd ?i1) = Inr n1 \<and> snd (snd ?i2) = Inr n2
          \<longrightarrow> length (hidden n2) = length (hidden n1) + 1"
    by simp
  have e1: "(\<exists>n1. snd (snd ?i1) = Inr n1)
        = (\<forall>p \<in> set (linear_sizes ctx input_dim (cells h r @ [output_dim])).
             Linear_raises T (fst p) (snd p) = None)"
    using DenseNet_init_Inr(5) [OF assms(1), of T h input_dim output_dim ctx r op_act int_act]
      DenseNet_init_accepts [OF assms(1), of ctx input_dim h r output_dim T op_act int_act]
    by blast
  have e2: "(\<exists>n2. snd (snd ?i2) = Inr n2)
        = (\<forall>p \<in> set (linear_sizes ctx2 input_dim2 (cells (fst ?i1) r @ [output_dim2])).
             Linear_raises T (fst p) (snd p) = None)"
    using DenseNet_init_Inr(5) [OF assms(2), of T "fst ?i1" input_dim2 output_dim2 ctx2 r op_act2
        int_act2]
      DenseNet_init_accepts [OF assms(2), of ctx2 input_dim2 "fst ?i1" r output_dim2 T op_act2
        int_act2]
    by blast
  from e2 c have e2': "(\<exists>n2. snd (snd ?i2) = Inr n2)
        = (\<forall>p \<in> set (linear_sizes ctx2 input_dim2 (cells h r @ [output_dim, output_dim2])).
             Linear_raises T (fst p) (snd p) = None)"
    by simp
  from c l f n1 n12 e1 e2' show ?thesis by (intro conjI)
qed

theorem DenseNet_init_extends_node_list_witness:
  "cells (fst (DenseNet_init (symbolic :: (nat, nat tensor_expr) torch)
                 \<lparr>cells = (\<lambda>_. [])(0 := [10]), next_ref = 1\<rparr> 2 1 None (Some 0)
                 None None Map.empty)) 0 = [10, 1]"
proof -
  let ?h = "\<lparr>cells = (\<lambda>_. [])(0 := [10]), next_ref = 1\<rparr>"
  have k: "islast_set Map.empty" by (simp add: islast_set_def)
  from DenseNet_init_extends_node_list
         [OF k k, where T = "symbolic :: (nat, nat tensor_expr) torch" and h = ?h
            and input_dim = 2 and output_dim = 1 and ctx = None and r = 0 and op_act = None
            and int_act = None, THEN conjunct1]
  show ?thesis by simp
qed

subsection \<open>The normalisation options\<close>

text \<open>
  The constructor reads the keyword options \<^verbatim>\<open>layernorm\<close> and \<^verbatim>\<open>batchnorm\<close> and stores them as
  attributes; nothing else in \<^verbatim>\<open>dense.py\<close> reads them. Changing the two options changes neither
  the caller's list nor, apart from the two attributes, the net that is built, and the result of
  constructing a net and running \<^verbatim>\<open>forward\<close> is the same whatever the options are.
\<close>

lemma map_sum_and_then:
  "map_sum id g (and_then m f) = and_then m (\<lambda>x. map_sum id g (f x))"
  by (cases m) simp_all

lemma DenseNet_init_norm_options:
  "fst (DenseNet_init T h input_dim output_dim ctx node_list op_act int_act
          (kwargs(''layernorm'' := ln, ''batchnorm'' := bn)))
     = fst (DenseNet_init T h input_dim output_dim ctx node_list op_act int_act kwargs)
   \<and> map_sum id (\<lambda>n. n\<lparr>layernorm := a, batchnorm := b\<rparr>)
       (snd (snd (DenseNet_init T h input_dim output_dim ctx node_list op_act int_act
                    (kwargs(''layernorm'' := ln, ''batchnorm'' := bn)))))
     = map_sum id (\<lambda>n. n\<lparr>layernorm := a, batchnorm := b\<rparr>)
       (snd (snd (DenseNet_init T h input_dim output_dim ctx node_list op_act int_act kwargs)))"
  by (simp add: DenseNet_init_def Let_def split_def map_sum_and_then)

lemma forward_ignores_norm_options:
  "DenseNet_run (T :: ('b, 'a) torch) h input_dim output_dim ctx node_list op_act int_act
     (kwargs(''layernorm'' := ln, ''batchnorm'' := bn)) x c
   = DenseNet_run T h input_dim output_dim ctx node_list op_act int_act kwargs x c"
proof -
  let ?u = "\<lambda>n :: 'b DenseNet. n\<lparr>layernorm := PyNone, batchnorm := PyNone\<rparr>"
  have f: "\<And>net. forward T (?u net) x c = forward T net x c"
    by (rule forward_cong) simp_all
  have r: "\<And>r. and_then r (\<lambda>net. forward T net x c)
              = and_then (map_sum id ?u r) (\<lambda>net. forward T net x c)"
  proof -
    fix r :: "error + 'b DenseNet"
    show "and_then r (\<lambda>net. forward T net x c)
              = and_then (map_sum id ?u r) (\<lambda>net. forward T net x c)"
      by (cases r) (simp_all add: f)
  qed
  from DenseNet_init_norm_options
         [of T h input_dim output_dim ctx node_list op_act int_act kwargs ln bn PyNone PyNone]
  have "map_sum id ?u
       (snd (snd (DenseNet_init T h input_dim output_dim ctx node_list op_act int_act
                    (kwargs(''layernorm'' := ln, ''batchnorm'' := bn)))))
     = map_sum id ?u
       (snd (snd (DenseNet_init T h input_dim output_dim ctx node_list op_act int_act kwargs)))"
    by (rule conjunct2)
  then show ?thesis
    unfolding DenseNet_run_def
    by (subst r, subst (2) r) simp
qed

text \<open>
  Claim C3 (optional normalisation: with \<^verbatim>\<open>layernorm=True\<close>, respectively \<^verbatim>\<open>batchnorm=True\<close>, the
  forward pass applies a layer, respectively batch, normalisation; with neither option none is
  applied). The code does not do this. For \<^verbatim>\<open>DenseNet(2, 1, node_list=[3], layernorm=True)\<close>
  the attribute \<^verbatim>\<open>layernorm\<close> is \<^verbatim>\<open>True\<close>, yet \<^verbatim>\<open>forward(x)\<close> is
  \<^verbatim>\<open>Linear(3, 1)(relu(Linear(2, 3)(x)))\<close>: two linear maps and one \<^verbatim>\<open>relu\<close>, with no normalisation
  in between, exactly the expression obtained with \<^verbatim>\<open>batchnorm=True\<close> and with no option at all.
  The tensor operations are interpreted symbolically, so the expression shows every operation
  that \<^verbatim>\<open>forward\<close> has applied.
\<close>

theorem DenseNet_layernorm_not_applied:
  "map_sum id layernorm
     (snd (snd (DenseNet_init (symbolic :: (nat, nat tensor_expr) torch)
                  \<lparr>cells = (\<lambda>_. [])(0 := [3]), next_ref = 1\<rparr> 2 1 None (Some 0)
                  None None [''layernorm'' \<mapsto> PyBool True])))
     = Inr (PyBool True)
   \<and> DenseNet_run symbolic \<lparr>cells = (\<lambda>_. [])(0 := [3]), next_ref = 1\<rparr> 2 1 None (Some 0)
       (None :: nat activation option) None [''layernorm'' \<mapsto> PyBool True] Input None
     = Inr (LinearOp (Linear 3 1) (ReluOp (LinearOp (Linear 2 3) Input)))
   \<and> DenseNet_run symbolic \<lparr>cells = (\<lambda>_. [])(0 := [3]), next_ref = 1\<rparr> 2 1 None (Some 0)
       (None :: nat activation option) None [''batchnorm'' \<mapsto> PyBool True] Input None
     = Inr (LinearOp (Linear 3 1) (ReluOp (LinearOp (Linear 2 3) Input)))
   \<and> DenseNet_run symbolic \<lparr>cells = (\<lambda>_. [])(0 := [3]), next_ref = 1\<rparr> 2 1 None (Some 0)
       (None :: nat activation option) None Map.empty Input None
     = Inr (LinearOp (Linear 3 1) (ReluOp (LinearOp (Linear 2 3) Input)))"
  by (simp add: DenseNet_run_def DenseNet_init_def Let_def extend_list_def hidden_tail_def
        Linear_new_def forward_def symbolic_def upt_rec)

subsection \<open>Context on a net with a single linear layer\<close>

text \<open>
  Claim C5 (for every net built with a context dimension \<open>c\<close>, \<^verbatim>\<open>forward(x, context)\<close> adds the
  linear image of the context to the first layer's pre-activation output and nowhere else;
  \<^verbatim>\<open>forward(x, None)\<close> is the plain feed-forward result). For nets with at least two linear layers
  this is what \<^verbatim>\<open>forward\<close> computes (\<open>forward_with_context\<close>, \<open>forward_no_context\<close>). For a net with
  a single linear layer the code does not: \<^verbatim>\<open>DenseNet(2, 1, context=3, node_list=[])\<close> builds
  \<^verbatim>\<open>contextual = Linear(3, 1)\<close> and \<^verbatim>\<open>hidden = [Linear(2, 1)]\<close>, the loop over \<^verbatim>\<open>hidden[:-1]\<close> has no
  iteration, and \<^verbatim>\<open>forward(x, context)\<close> is \<^verbatim>\<open>Linear(2, 1)(x)\<close>: the context is dropped.
\<close>

theorem forward_single_layer_drops_context:
  "snd (snd (DenseNet_init (symbolic :: (nat, nat tensor_expr) torch)
               \<lparr>cells = (\<lambda>_. []), next_ref = 1\<rparr> 2 1 (Some 3) (Some 0) None None Map.empty))
     = Inr \<lparr>ipdim = 2, opdim = 1, op_activ = Identity, int_activ = relu, context' = Some 3,
            layernorm = PyBool False, batchnorm = PyBool False, islast = PyBool True,
            layers = 0, contextual = Some (Linear 3 1), hidden = [Linear 2 1]\<rparr>
   \<and> DenseNet_run symbolic \<lparr>cells = (\<lambda>_. []), next_ref = 1\<rparr> 2 1 (Some 3) (Some 0)
       (None :: nat activation option) None Map.empty Input (Some Ctx)
     = Inr (LinearOp (Linear 2 1) Input)"
  by (simp add: DenseNet_run_def DenseNet_init_def Let_def extend_list_def hidden_tail_def
        Linear_new_def forward_def symbolic_def)

text \<open>With one more layer the context term is there, once, before the first activation.\<close>

lemma forward_two_layers_adds_context:
  "DenseNet_run symbolic \<lparr>cells = (\<lambda>_. [])(0 := [3]), next_ref = 1\<rparr> 2 1 (Some 4) (Some 0)
       (None :: nat activation option) None Map.empty Input (Some Ctx)
     = Inr (LinearOp (Linear 3 1)
              (ReluOp (AddOp (LinearOp (Linear 2 3) Input) (LinearOp (Linear 4 3) Ctx))))"
  by (simp add: DenseNet_run_def DenseNet_init_def Let_def extend_list_def hidden_tail_def
        Linear_new_def forward_def symbolic_def upt_rec)

subsection \<open>Two constructions from the same list object\<close>

text \<open>
  Claim C9 (the constructor and the flow factories are stateless: two calls with equal arguments
  give structurally equal results, independent of prior calls). The functions of \<^verbatim>\<open>flows.py\<close>
  keep no state. The \<^verbatim>\<open>DenseNet\<close> constructor does depend on a prior call: with \<^verbatim>\<open>L = [10]\<close>, the
  call \<^verbatim>\<open>DenseNet(2, 1, node_list=L)\<close> builds the layers \<open>2 \<rightarrow> 10 \<rightarrow> 1\<close> and leaves \<^verbatim>\<open>L = [10, 1]\<close>
  behind, and the same call again, on the same list object, builds \<open>2 \<rightarrow> 10 \<rightarrow> 1 \<rightarrow> 1\<close>.
\<close>

theorem DenseNet_init_same_list_twice:
  "map_sum id hidden
     (snd (snd (DenseNet_init (symbolic :: (nat, nat tensor_expr) torch)
                  \<lparr>cells = (\<lambda>_. [])(0 := [10]), next_ref = 1\<rparr> 2 1 None (Some 0)
                  None None Map.empty)))
     = Inr [Linear 2 10, Linear 10 1]
   \<and> map_sum id hidden
     (snd (snd (DenseNet_init (symbolic :: (nat, nat tensor_expr) torch)
                  (fst (DenseNet_init (symbolic :: (nat, nat tensor_expr) torch)
                          \<lparr>cells = (\<lambda>_. [])(0 := [10]), next_ref = 1\<rparr> 2 1 None
                          (Some 0) None None Map.empty))
                  2 1 None (Some 0) None None Map.empty)))
     = Inr [Linear 2 10, Linear 10 1, Linear 1 1]"
  by (simp add: DenseNet_init_def Let_def extend_list_def hidden_tail_def Linear_new_def
        symbolic_def eval_nat_numeral upt_rec)

text \<open>
  A negative width is refused by \<^verbatim>\<open>Linear\<close>, after the caller's list has already been extended.
\<close>

lemma DenseNet_negative_size:
  "DenseNet_init (symbolic :: (nat, nat tensor_expr) torch)
     \<lparr>cells = (\<lambda>_. [])(0 := [- 10]), next_ref = 1\<rparr> 2 1 None (Some 0) None None Map.empty
     = (\<lparr>cells = (\<lambda>_. [])(0 := [- 10, 1]), next_ref = 1\<rparr>, [], Inl RuntimeError)"
  by (simp add: DenseNet_init_def Let_def extend_list_def hidden_tail_def Linear_new_def
        symbolic_def)

end
